theory Spec2Isabelle
  imports Main "HOL-Library.Word"
begin

section \<open>Bundling of a Rust Lambda function (\<open>src/lib/bundling.ts\<close>)\<close>

text \<open>
  The module decides whether \<open>cargo lambda\<close> builds the function on the host or in a
  Docker container, and prepares both: the image, command, environment and user of the
  container, and a \<open>tryBundle\<close> closure that spawns the build on the host.

  The embedding follows the TypeScript. Optional properties (\<open>x?: T\<close>) are \<open>option\<close>s
  with \<open>None\<close> for \<open>undefined\<close>; objects used as dictionaries are maps; the static
  \<open>Bundling.runsLocally\<close> is a field of an explicit process state; what \<open>tryBundle\<close>
  writes and spawns is a trace of events, and how it ends (return, \<open>process.exit\<close>, an
  exception) is a value.
\<close>

subsection \<open>JavaScript strings\<close>

text \<open>
  A JavaScript string is a sequence of 16-bit code units. \<open>js\<close> turns an ASCII literal of
  the source into its code units.
\<close>

type_synonym code_unit = "16 word"
type_synonym jsstring = "code_unit list"

definition js :: "string \<Rightarrow> jsstring" where
  "js s = map (\<lambda>c. of_nat (of_char c :: nat)) s"

text \<open>
  \<open>String.prototype.trim\<close> removes the white space and line terminators of ECMAScript
  from both ends: TAB, LF, VT, FF, CR, SP, NBSP, the byte order mark, the line and
  paragraph separators and the other space separators of Unicode.
\<close>

definition isWhiteSpace :: "code_unit \<Rightarrow> bool" where
  "isWhiteSpace c \<longleftrightarrow>
     c = 0x0009 \<or> c = 0x000A \<or> c = 0x000B \<or> c = 0x000C \<or> c = 0x000D \<or>
     c = 0x0020 \<or> c = 0x00A0 \<or> c = 0x1680 \<or> (0x2000 \<le> c \<and> c \<le> 0x200A) \<or>
     c = 0x2028 \<or> c = 0x2029 \<or> c = 0x202F \<or> c = 0x205F \<or> c = 0x3000 \<or>
     c = 0xFEFF"

definition trim :: "jsstring \<Rightarrow> jsstring" where
  "trim s = rev (dropWhile isWhiteSpace (rev (dropWhile isWhiteSpace s)))"

subsection \<open>Data model\<close>

type_synonym env = "jsstring \<rightharpoonup> jsstring"

text \<open>\<open>AssetHashType\<close> of aws-cdk-lib.\<close>

datatype AssetHashType = SOURCE | BUNDLE | OUTPUT | CUSTOM

text \<open>
  \<open>BundlingProps\<close>, lines 20 to 90. The runtime and the architecture are kept by name;
  the constructor reads neither, nor any property inherited from \<open>DockerRunOptions\<close>,
  which are left out.
\<close>

record BundlingProps =
  assetHashType :: "AssetHashType option"
  assetHash :: "jsstring option"
  entry :: jsstring
  bin :: "jsstring option"
  runtime :: jsstring
  architecture :: jsstring
  target :: jsstring
  buildEnvironment :: "env option"
  forcedDockerBundling :: "bool option"

text \<open>
  The options of \<open>cdk.DockerImage.fromBuild\<close> (\<open>DockerBuildOptions\<close>), all optional, and
  the two ways the source makes an image.
\<close>

record DockerBuildOptions =
  buildArgs :: "env option"
  file' :: "jsstring option"
  platform :: "jsstring option"
  targetStage :: "jsstring option"

datatype DockerImage =
  fromBuild jsstring DockerBuildOptions
| fromRegistry jsstring

text \<open>
  The object assigned to \<open>this.local\<close> has one method, \<open>tryBundle\<close>, that closes over
  \<open>props\<close>, \<open>osPlatform\<close> and \<open>inputEnv\<close>. The closure is the record of what it captured.
\<close>

record LocalBundling =
  captured_props :: BundlingProps
  captured_osPlatform :: jsstring
  captured_inputEnv :: "env option"

text \<open>The fields of a \<open>Bundling\<close> instance, lines 116 to 122.\<close>

record Bundling =
  props :: BundlingProps
  image' :: DockerImage
  command :: "jsstring list"
  environment :: "env option"
  user :: jsstring
  local :: "LocalBundling option"

text \<open>
  The arguments of \<open>spawnSync(command, args, options)\<close> and the part of its result that
  \<open>tryBundle\<close> reads. \<open>status\<close> is \<open>null\<close> when the child did not exit by itself, and
  \<open>stderr\<close> is \<open>null\<close> when the child could not be spawned; otherwise \<open>stderr\<close> holds
  the text that \<open>cargo.stderr.toString()\<close> gives.
\<close>

record SpawnCall =
  spawn_command :: jsstring
  spawn_args :: "jsstring list"
  env :: env
  cwd :: jsstring
  windowsVerbatimArguments :: bool

record SpawnResult =
  status :: "int option"
  stderr :: "jsstring option"

text \<open>What a call of \<open>tryBundle\<close> does to the outside, in order, and how it ends.\<close>

datatype event =
  StderrWrite jsstring
| ConsoleLog "jsstring list"
| ConsoleError "jsstring list"
| SpawnSync SpawnCall

datatype outcome =
  Returned bool
| ProcessExit int
| ThrewTypeError

text \<open>
  The process state: the private static \<open>Bundling.runsLocally\<close> (line 113), and a count
  of the calls of \<open>getCargoLambdaVersion\<close> made so far, which the source does not keep
  and which only records when the probe ran.
\<close>

record Process =
  runsLocally :: "bool option"
  probes :: nat

text \<open>
  What the module reads from outside itself at the moment of a call:
  \<^item> \<open>getCargoLambdaVersion\<close>: what \<open>getCargoLambdaVersion()\<close> of \<open>./utils\<close> would return
    if it were called now (a boolean or \<open>undefined\<close>, by the type of \<open>runsLocally\<close>);
  \<^item> \<open>BUILD_ENVIRONMENT\<close>: the current value of \<open>Settings.BUILD_ENVIRONMENT\<close>;
  \<^item> \<open>createBuildCommand\<close>: the function of \<open>./build\<close>, with the properties of its
    argument object in the order entry, bin, target, outDir, targetPlatform;
  \<^item> \<open>os_platform\<close>: \<open>os.platform()\<close>;
  \<^item> \<open>lib_dir\<close>: \<open>path.join(__dirname, '../lib')\<close>;
  \<^item> \<open>process_env\<close>: \<open>process.env\<close>;
  \<^item> \<open>spawnSync\<close>: what the child process does when it is spawned.
\<close>

record Ambient =
  getCargoLambdaVersion :: "bool option"
  BUILD_ENVIRONMENT :: "env option"
  createBuildCommand ::
    "jsstring \<Rightarrow> jsstring option \<Rightarrow> jsstring \<Rightarrow> jsstring \<Rightarrow> jsstring \<Rightarrow> jsstring"
  os_platform :: jsstring
  lib_dir :: jsstring
  process_env :: env
  spawnSync :: "SpawnCall \<Rightarrow> SpawnResult"

subsection \<open>Operators of JavaScript on optional values\<close>

text \<open>\<open>a ?? b\<close>: \<open>b\<close> when \<open>a\<close> is \<open>undefined\<close>, else \<open>a\<close>.\<close>

definition nullish :: "'a option \<Rightarrow> 'a \<Rightarrow> 'a" where
  "nullish a b = (case a of None \<Rightarrow> b | Some v \<Rightarrow> v)"

text \<open>
  \<open>a || b\<close> on optional objects: every object is truthy, also the empty one, so \<open>b\<close>
  is taken only when \<open>a\<close> is \<open>undefined\<close>.
\<close>

definition or_object :: "'a option \<Rightarrow> 'a option \<Rightarrow> 'a option" where
  "or_object a b = (case a of None \<Rightarrow> b | Some v \<Rightarrow> Some v)"

text \<open>Truthiness of an optional boolean: \<open>undefined\<close> and \<open>false\<close> are falsy.\<close>

definition truthy :: "bool option \<Rightarrow> bool" where
  "truthy a = (a = Some True)"

subsection \<open>Constants\<close>

text \<open>\<open>AssetStaging.BUNDLING_INPUT_DIR\<close> and \<open>AssetStaging.BUNDLING_OUTPUT_DIR\<close> of aws-cdk-lib.\<close>

definition BUNDLING_INPUT_DIR :: jsstring where
  "BUNDLING_INPUT_DIR = js ''/asset-input''"

definition BUNDLING_OUTPUT_DIR :: jsstring where
  "BUNDLING_OUTPUT_DIR = js ''/asset-output''"

text \<open>The empty object literal passed to \<open>fromBuild\<close>, lines 133 to 137.\<close>

definition no_build_options :: DockerBuildOptions where
  "no_build_options =
     \<lparr>buildArgs = None, file' = None, platform = None, targetStage = None\<rparr>"

text \<open>The two messages of \<open>tryBundle\<close>; the second starts with U+1F4A5, a surrogate pair.\<close>

definition cannot_run_locally :: jsstring where
  "cannot_run_locally =
     js ''cargo lambda cannot run locally. Switching to Docker bundling.'' @ [0x000A]"

definition errored :: jsstring where
  "errored = [0xD83D, 0xDCA5] @ js ''  Run `cargo lambda` errored.''"

subsection \<open>The constructor\<close>

text \<open>
  Lines 123 to 125: \<open>Bundling.runsLocally ?? getCargoLambdaVersion() ?? false\<close>. The
  operator evaluates its right side only when the left one is \<open>undefined\<close>, so the probe
  runs only then.
\<close>

definition resolve :: "Ambient \<Rightarrow> Process \<Rightarrow> Process" where
  "resolve a s =
     (case runsLocally s of
        Some b \<Rightarrow> s
      | None \<Rightarrow>
          s\<lparr>runsLocally := Some (nullish (getCargoLambdaVersion a) False),
            probes := Suc (probes s)\<rparr>)"

text \<open>Lines 122 to 193. The result is the process state after the call and the new object.\<close>

definition Bundling_constructor :: "Ambient \<Rightarrow> BundlingProps \<Rightarrow> Process \<Rightarrow> Process \<times> Bundling" where
  "Bundling_constructor a p s =
     (let s' = resolve a s;
          inputEnv = or_object (buildEnvironment p) (BUILD_ENVIRONMENT a);
          shouldBuildImage = (truthy (forcedDockerBundling p) \<or> \<not> truthy (runsLocally s'))
      in (s',
          \<lparr>props = p,
           image' = (if shouldBuildImage then fromBuild (lib_dir a) no_build_options
                     else fromRegistry (js ''dummy'')),
           command = [js ''bash'', js ''-c'',
                      createBuildCommand a BUNDLING_INPUT_DIR (bin p) (target p)
                        BUNDLING_OUTPUT_DIR (js ''linux'')],
           environment = inputEnv,
           user = js ''root'',
           local = (if \<not> truthy (forcedDockerBundling p)
                    then Some \<lparr>captured_props = p,
                               captured_osPlatform = os_platform a,
                               captured_inputEnv = inputEnv\<rparr>
                    else None)\<rparr>))"

subsection \<open>Local bundling\<close>

text \<open>
  \<open>tryBundle\<close>, lines 158 to 190, called on the closure \<open>l\<close> with the process state and
  the surroundings of the moment of the call. \<open>Bundling.runsLocally == false\<close> holds for
  \<open>false\<close> only, not for \<open>undefined\<close>; \<open>cargo.status !== 0\<close> holds for \<open>null\<close> too, and
  \<open>cargo.stderr.toString()\<close> throws a TypeError when \<open>cargo.stderr\<close> is \<open>null\<close>.
  \<open>buildCommand\<close> is the constant of lines 164 to 170, \<open>spawn_call\<close> the arguments of
  \<open>spawnSync\<close> on lines 172 to 183, and \<open>cargo\<close> its result.
\<close>

definition buildCommand :: "Ambient \<Rightarrow> LocalBundling \<Rightarrow> jsstring \<Rightarrow> jsstring" where
  "buildCommand a l outDir =
     createBuildCommand a (entry (captured_props l)) (bin (captured_props l))
       (target (captured_props l)) outDir (captured_osPlatform l)"

definition spawn_call :: "Ambient \<Rightarrow> LocalBundling \<Rightarrow> jsstring \<Rightarrow> SpawnCall" where
  "spawn_call a l outDir =
     \<lparr>spawn_command = (if captured_osPlatform l = js ''win32'' then js ''cmd'' else js ''bash''),
      spawn_args = [if captured_osPlatform l = js ''win32'' then js ''/c'' else js ''-c'',
                    buildCommand a l outDir],
      env = process_env a ++ nullish (captured_inputEnv l) Map.empty,
      cwd = entry (captured_props l),
      windowsVerbatimArguments = (captured_osPlatform l = js ''win32'')\<rparr>"

definition cargo :: "Ambient \<Rightarrow> LocalBundling \<Rightarrow> jsstring \<Rightarrow> SpawnResult" where
  "cargo a l outDir = spawnSync a (spawn_call a l outDir)"

definition tryBundle :: "Ambient \<Rightarrow> Process \<Rightarrow> LocalBundling \<Rightarrow> jsstring \<Rightarrow> event list \<times> outcome" where
  "tryBundle a s l outDir =
     (if runsLocally s = Some False then ([StderrWrite cannot_run_locally], Returned False)
      else
        let done = [ConsoleLog [js ''BUNDLING...: '' @ outDir],
                    ConsoleLog [js ''Running:'', buildCommand a l outDir],
                    SpawnSync (spawn_call a l outDir)]
        in if status (cargo a l outDir) \<noteq> Some 0
           then (case stderr (cargo a l outDir) of
                   None \<Rightarrow> (done, ThrewTypeError)
                 | Some e \<Rightarrow>
                     (done @ [ConsoleError [trim e], ConsoleError [errored]], ProcessExit 1))
           else (done, Returned True))"

subsection \<open>Several constructions in one process\<close>

text \<open>
  The process state after a sequence of \<open>new Bundling(props)\<close>, each with the
  surroundings of its own moment.
\<close>

fun constructions :: "(Ambient \<times> BundlingProps) list \<Rightarrow> Process \<Rightarrow> Process" where
  "constructions [] s = s"
| "constructions ((a, p) # rest) s = constructions rest (fst (Bundling_constructor a p s))"

subsection \<open>Reading a trace\<close>

text \<open>The subprocesses a trace spawned, in order.\<close>

fun spawned :: "event list \<Rightarrow> SpawnCall list" where
  "spawned [] = []"
| "spawned (SpawnSync c # es) = c # spawned es"
| "spawned (e # es) = spawned es"

subsection \<open>The build environment as the specification words it\<close>

text \<open>
  The specification calls the build environment "merged from caller overrides and
  process defaults": the keys of both, the caller's value where both have the key.
\<close>

definition spec_merged_environment :: "env option \<Rightarrow> env option \<Rightarrow> env" where
  "spec_merged_environment overrides defaults =
     nullish defaults Map.empty ++ nullish overrides Map.empty"

subsection \<open>Concrete inputs\<close>

text \<open>
  A process that has constructed no \<open>Bundling\<close> yet, and sample surroundings and
  properties. \<open>sample_createBuildCommand\<close> stands in for the function of \<open>./build\<close>
  only in these samples; the theorems below hold for every function in its place.
\<close>

definition fresh :: Process where
  "fresh = \<lparr>runsLocally = None, probes = 0\<rparr>"

definition succeeded :: SpawnResult where
  "succeeded = \<lparr>status = Some 0, stderr = Some []\<rparr>"

definition failed :: SpawnResult where
  "failed = \<lparr>status = Some 101, stderr = Some (js ''error: could not compile'' @ [0x000A])\<rparr>"

definition sample_createBuildCommand ::
  "jsstring \<Rightarrow> jsstring option \<Rightarrow> jsstring \<Rightarrow> jsstring \<Rightarrow> jsstring \<Rightarrow> jsstring" where
  "sample_createBuildCommand entry' bin' target' outDir targetPlatform =
     js ''cargo lambda build --target '' @ target' @ js '' --lambda-dir '' @ outDir"

definition sample_ambient :: "bool option \<Rightarrow> jsstring \<Rightarrow> SpawnResult \<Rightarrow> Ambient" where
  "sample_ambient probe os result =
     \<lparr>getCargoLambdaVersion = probe,
      BUILD_ENVIRONMENT = Some [js ''RUSTFLAGS'' \<mapsto> js ''-C opt-level=3''],
      createBuildCommand = sample_createBuildCommand,
      os_platform = os,
      lib_dir = js ''/app/node_modules/rust.aws-cdk-lambda/lib'',
      process_env = [js ''HOME'' \<mapsto> js ''/home/dev'', js ''MODE'' \<mapsto> js ''host''],
      spawnSync = (\<lambda>c. result)\<rparr>"

definition sample_props :: "env option \<Rightarrow> bool option \<Rightarrow> BundlingProps" where
  "sample_props buildEnv forced =
     \<lparr>assetHashType = None,
      assetHash = None,
      entry = js ''/proj'',
      bin = Some (js ''handler''),
      runtime = js ''provided.al2'',
      architecture = js ''arm64'',
      target = js ''aarch64-unknown-linux-gnu'',
      buildEnvironment = buildEnv,
      forcedDockerBundling = forced\<rparr>"

section \<open>Properties\<close>

subsection \<open>Facts about the constructor and the closure\<close>

lemma runsLocally_resolve:
  "runsLocally (resolve a s) =
     Some (case runsLocally s of None \<Rightarrow> nullish (getCargoLambdaVersion a) False | Some b \<Rightarrow> b)"
  by (simp add: resolve_def split: option.splits)

lemma resolve_resolved: "runsLocally s = Some b \<Longrightarrow> resolve a s = s"
  by (simp add: resolve_def)

lemma fst_Bundling_constructor: "fst (Bundling_constructor a p s) = resolve a s"
  by (simp add: Bundling_constructor_def Let_def)

lemma constructions_resolved: "runsLocally s = Some b \<Longrightarrow> constructions cs s = s"
proof (induction cs arbitrary: s)
  case Nil
  show ?case by simp
next
  case (Cons c cs)
  obtain a p where c: "c = (a, p)" by (cases c)
  from Cons.prems have "resolve a s = s" by (rule resolve_resolved)
  with Cons c show ?case by (simp add: fst_Bundling_constructor)
qed

lemma environment_constructor:
  "environment (snd (Bundling_constructor a p s)) =
     or_object (buildEnvironment p) (BUILD_ENVIRONMENT a)"
  by (simp add: Bundling_constructor_def Let_def)

lemma local_constructor:
  "local (snd (Bundling_constructor a p s)) =
     (if truthy (forcedDockerBundling p) then None
      else Some \<lparr>captured_props = p, captured_osPlatform = os_platform a,
                 captured_inputEnv = or_object (buildEnvironment p) (BUILD_ENVIRONMENT a)\<rparr>)"
  by (simp add: Bundling_constructor_def Let_def)

lemma image_constructor:
  "image' (snd (Bundling_constructor a p s)) =
     (if truthy (forcedDockerBundling p) \<or> \<not> truthy (runsLocally (resolve a s))
      then fromBuild (lib_dir a) no_build_options else fromRegistry (js ''dummy''))"
  by (simp add: Bundling_constructor_def Let_def)

lemma command_constructor:
  "command (snd (Bundling_constructor a p s)) =
     [js ''bash'', js ''-c'',
      createBuildCommand a BUNDLING_INPUT_DIR (bin p) (target p) BUNDLING_OUTPUT_DIR
        (js ''linux'')]"
  by (simp add: Bundling_constructor_def Let_def)

lemma tryBundle_declines:
  "runsLocally s = Some False \<Longrightarrow>
     tryBundle a s l outDir = ([StderrWrite cannot_run_locally], Returned False)"
  by (simp add: tryBundle_def)

lemma spawned_tryBundle:
  "runsLocally s \<noteq> Some False \<Longrightarrow>
     spawned (fst (tryBundle a s l outDir)) = [spawn_call a l outDir]"
  by (simp add: tryBundle_def Let_def split: option.splits)

lemma tryBundle_not_declined:
  "runsLocally s \<noteq> Some False \<Longrightarrow> snd (tryBundle a s l outDir) \<noteq> Returned False"
  by (simp add: tryBundle_def Let_def split: option.splits)

text \<open>What \<open>trim\<close> removes is white space before and after what it keeps.\<close>

lemma trim_decomposition:
  "\<exists>before after. s = before @ trim s @ after \<and>
     list_all isWhiteSpace before \<and> list_all isWhiteSpace after"
proof -
  let ?r = "dropWhile isWhiteSpace s"
  let ?before = "takeWhile isWhiteSpace s"
  let ?after = "rev (takeWhile isWhiteSpace (rev ?r))"
  have "rev (dropWhile isWhiteSpace (rev ?r)) @ ?after =
          rev (takeWhile isWhiteSpace (rev ?r) @ dropWhile isWhiteSpace (rev ?r))"
    by (simp only: rev_append)
  also have "\<dots> = rev (rev ?r)"
    by (simp only: takeWhile_dropWhile_id)
  finally have r: "?r = trim s @ ?after"
    by (simp add: trim_def)
  have "s = ?before @ ?r" by simp
  with r have "s = ?before @ trim s @ ?after" by simp
  moreover have "list_all isWhiteSpace ?before"
    by (auto simp: list_all_iff dest: set_takeWhileD)
  moreover have "list_all isWhiteSpace ?after"
    by (auto simp: list_all_iff dest: set_takeWhileD)
  ultimately show ?thesis by blast
qed

subsection \<open>The build environment\<close>

text \<open>
  C1, as the specification states it: the build environment handed to the subprocess or
  the container is the merge of the caller's overrides and the process-wide defaults,
  with the keys of both. The source does not merge: with the caller's
  \<open>buildEnvironment = {MODE: 'lambda'}\<close> and the default
  \<open>Settings.BUILD_ENVIRONMENT = {RUSTFLAGS: '-C opt-level=3'}\<close>, the environment of the
  new \<open>Bundling\<close> has no \<open>RUSTFLAGS\<close>, which the merge has.
\<close>

theorem build_environment_not_merged:
  "nullish (environment (snd (Bundling_constructor
       (sample_ambient (Some True) (js ''linux'') succeeded)
       (sample_props (Some [js ''MODE'' \<mapsto> js ''lambda'']) None) fresh))) Map.empty
     (js ''RUSTFLAGS'') = None \<and>
   spec_merged_environment
       (buildEnvironment (sample_props (Some [js ''MODE'' \<mapsto> js ''lambda'']) None))
       (BUILD_ENVIRONMENT (sample_ambient (Some True) (js ''linux'') succeeded))
     (js ''RUSTFLAGS'') = Some (js ''-C opt-level=3'')"
  by (simp add: environment_constructor sample_ambient_def sample_props_def or_object_def
      nullish_def spec_merged_environment_def js_def)

text \<open>
  C1, amended: the build environment is the caller's \<open>buildEnvironment\<close> whenever one is
  given, also an empty one, and the process-wide default \<open>Settings.BUILD_ENVIRONMENT\<close>
  only when the caller gives none; this one environment goes to the container, and on top
  of \<open>process.env\<close> to the subprocess. The two are never merged key by key.
\<close>

theorem build_environment_is_override_or_default:
  "environment (snd (Bundling_constructor a p s)) =
     (case buildEnvironment p of Some e \<Rightarrow> Some e | None \<Rightarrow> BUILD_ENVIRONMENT a) \<and>
   (\<forall>l. local (snd (Bundling_constructor a p s)) = Some l \<longrightarrow>
      env (spawn_call a' l outDir) =
        process_env a' ++
          (case buildEnvironment p of
             Some e \<Rightarrow> e
           | None \<Rightarrow> (case BUILD_ENVIRONMENT a of Some d \<Rightarrow> d | None \<Rightarrow> Map.empty)))"
  by (auto simp: environment_constructor local_constructor spawn_call_def or_object_def
      nullish_def split: option.splits if_splits)

theorem build_environment_is_override_or_default_witness:
  "local (snd (Bundling_constructor (sample_ambient (Some True) (js ''linux'') succeeded)
       (sample_props (Some [js ''MODE'' \<mapsto> js ''lambda'']) None) fresh)) =
     Some \<lparr>captured_props = sample_props (Some [js ''MODE'' \<mapsto> js ''lambda'']) None,
           captured_osPlatform = js ''linux'',
           captured_inputEnv = Some [js ''MODE'' \<mapsto> js ''lambda'']\<rparr> \<and>
   env (spawn_call (sample_ambient (Some True) (js ''linux'') succeeded)
         \<lparr>captured_props = sample_props (Some [js ''MODE'' \<mapsto> js ''lambda'']) None,
          captured_osPlatform = js ''linux'',
          captured_inputEnv = Some [js ''MODE'' \<mapsto> js ''lambda'']\<rparr> (js ''/out''))
     = [js ''HOME'' \<mapsto> js ''/home/dev'', js ''MODE'' \<mapsto> js ''host'']
         ++ [js ''MODE'' \<mapsto> js ''lambda'']"
proof -
  let ?a = "sample_ambient (Some True) (js ''linux'') succeeded"
  let ?p = "sample_props (Some [js ''MODE'' \<mapsto> js ''lambda'']) None"
  let ?l = "\<lparr>captured_props = ?p, captured_osPlatform = js ''linux'',
             captured_inputEnv = Some [js ''MODE'' \<mapsto> js ''lambda'']\<rparr>"
  have h: "local (snd (Bundling_constructor ?a ?p fresh)) = Some ?l"
    by (simp add: local_constructor truthy_def or_object_def sample_props_def
        sample_ambient_def)
  from build_environment_is_override_or_default [of ?a ?p fresh ?a "js ''/out''"] h
  have "env (spawn_call ?a ?l (js ''/out'')) =
          process_env ?a ++
            (case buildEnvironment ?p of
               Some e \<Rightarrow> e
             | None \<Rightarrow> (case BUILD_ENVIRONMENT ?a of Some d \<Rightarrow> d | None \<Rightarrow> Map.empty))"
    by blast
  then have "env (spawn_call ?a ?l (js ''/out'')) =
      [js ''HOME'' \<mapsto> js ''/home/dev'', js ''MODE'' \<mapsto> js ''host'']
         ++ [js ''MODE'' \<mapsto> js ''lambda'']"
    by (simp add: sample_props_def sample_ambient_def)
  with h show ?thesis by (rule conjI)
qed

subsection \<open>Choosing between the container and the host\<close>

text \<open>
  C2: with \<open>forcedDockerBundling = true\<close> the image is built from the Dockerfile directory
  and no local bundling is offered, whatever the cached availability and whatever the
  probe would say.
\<close>

theorem forced_docker_bundling_selects_container:
  assumes "forcedDockerBundling p = Some True"
  shows "image' (snd (Bundling_constructor a p s)) = fromBuild (lib_dir a) no_build_options \<and>
         local (snd (Bundling_constructor a p s)) = None"
  using assms by (simp add: image_constructor local_constructor truthy_def)

theorem forced_docker_bundling_selects_container_witness:
  "forcedDockerBundling (sample_props None (Some True)) = Some True \<and>
   image' (snd (Bundling_constructor (sample_ambient (Some True) (js ''linux'') succeeded)
       (sample_props None (Some True)) \<lparr>runsLocally = Some True, probes = 1\<rparr>)) =
     fromBuild (js ''/app/node_modules/rust.aws-cdk-lambda/lib'') no_build_options \<and>
   local (snd (Bundling_constructor (sample_ambient (Some True) (js ''linux'') succeeded)
       (sample_props None (Some True)) \<lparr>runsLocally = Some True, probes = 1\<rparr>)) = None"
proof -
  have h: "forcedDockerBundling (sample_props None (Some True)) = Some True"
    by (simp add: sample_props_def)
  from forced_docker_bundling_selects_container [OF h,
      of "sample_ambient (Some True) (js ''linux'') succeeded"
         "\<lparr>runsLocally = Some True, probes = 1\<rparr>"] h
  show ?thesis by (simp add: sample_ambient_def)
qed

text \<open>
  C3: with \<open>forcedDockerBundling\<close> false or absent and the availability resolved to
  \<open>false\<close>, the image is built from the Dockerfile directory, and the local bundling that
  is offered declines: called at any later moment of the process, after any further
  constructions, \<open>tryBundle\<close> writes the diagnostic and returns \<open>false\<close>.
\<close>

theorem unavailable_selects_container:
  assumes "forcedDockerBundling p \<noteq> Some True"
    and "runsLocally (fst (Bundling_constructor a p s)) = Some False"
  shows "image' (snd (Bundling_constructor a p s)) = fromBuild (lib_dir a) no_build_options \<and>
         (\<exists>l. local (snd (Bundling_constructor a p s)) = Some l \<and>
              tryBundle a' (constructions cs (fst (Bundling_constructor a p s))) l outDir =
                ([StderrWrite cannot_run_locally], Returned False))"
proof -
  from assms(2) have r: "runsLocally (resolve a s) = Some False"
    by (simp add: fst_Bundling_constructor)
  then have "image' (snd (Bundling_constructor a p s)) = fromBuild (lib_dir a) no_build_options"
    by (simp add: image_constructor truthy_def)
  moreover from assms(1) have "local (snd (Bundling_constructor a p s)) \<noteq> None"
    by (simp add: local_constructor truthy_def)
  moreover from assms(2)
  have "constructions cs (fst (Bundling_constructor a p s)) = fst (Bundling_constructor a p s)"
    by (rule constructions_resolved)
  with assms(2) have "\<And>l. tryBundle a' (constructions cs (fst (Bundling_constructor a p s))) l outDir =
      ([StderrWrite cannot_run_locally], Returned False)"
    by (simp add: tryBundle_declines)
  ultimately show ?thesis by auto
qed

theorem unavailable_selects_container_witness:
  "forcedDockerBundling (sample_props None None) \<noteq> Some True \<and>
   runsLocally (fst (Bundling_constructor (sample_ambient None (js ''darwin'') succeeded)
       (sample_props None None) fresh)) = Some False \<and>
   image' (snd (Bundling_constructor (sample_ambient None (js ''darwin'') succeeded)
       (sample_props None None) fresh)) =
     fromBuild (js ''/app/node_modules/rust.aws-cdk-lambda/lib'') no_build_options \<and>
   (\<exists>l. local (snd (Bundling_constructor (sample_ambient None (js ''darwin'') succeeded)
            (sample_props None None) fresh)) = Some l \<and>
        tryBundle (sample_ambient (Some True) (js ''darwin'') succeeded)
            (constructions [(sample_ambient (Some True) (js ''darwin'') succeeded,
                             sample_props None (Some False))]
               (fst (Bundling_constructor (sample_ambient None (js ''darwin'') succeeded)
                  (sample_props None None) fresh)))
            l (js ''/out'') =
          ([StderrWrite cannot_run_locally], Returned False))"
proof -
  let ?a = "sample_ambient None (js ''darwin'') succeeded"
  have h1: "forcedDockerBundling (sample_props None None) \<noteq> Some True"
    by (simp add: sample_props_def)
  have h2: "runsLocally (fst (Bundling_constructor ?a (sample_props None None) fresh)) = Some False"
    by (simp add: fst_Bundling_constructor runsLocally_resolve fresh_def nullish_def
        sample_ambient_def)
  from unavailable_selects_container [OF h1 h2,
      of "sample_ambient (Some True) (js ''darwin'') succeeded"
         "[(sample_ambient (Some True) (js ''darwin'') succeeded, sample_props None (Some False))]"
         "js ''/out''"] h1 h2
  show ?thesis by (simp add: sample_ambient_def)
qed

subsection \<open>The cached availability\<close>

text \<open>
  C4: a construction leaves \<open>Bundling.runsLocally\<close> resolved: to the value it had if it
  had one, else to the answer of the probe, run once, with \<open>false\<close> for no answer. Every
  sequence of later constructions, whatever the probe would answer by then, leaves the
  process state as it is, so the cached value stays and the probe is not run again; and
  a later construction chooses its image by the cached value.
\<close>

theorem runsLocally_resolved_once:
  "runsLocally (fst (Bundling_constructor a p s)) =
     Some (case runsLocally s of
             None \<Rightarrow> (case getCargoLambdaVersion a of None \<Rightarrow> False | Some v \<Rightarrow> v)
           | Some b \<Rightarrow> b) \<and>
   probes (fst (Bundling_constructor a p s)) =
     (if runsLocally s = None then Suc (probes s) else probes s) \<and>
   constructions cs (fst (Bundling_constructor a p s)) = fst (Bundling_constructor a p s) \<and>
   image' (snd (Bundling_constructor a' p'
       (constructions cs (fst (Bundling_constructor a p s))))) =
     (if forcedDockerBundling p' = Some True \<or>
         runsLocally (fst (Bundling_constructor a p s)) \<noteq> Some True
      then fromBuild (lib_dir a') no_build_options else fromRegistry (js ''dummy''))"
proof -
  let ?s1 = "fst (Bundling_constructor a p s)"
  have r: "runsLocally ?s1 =
     Some (case runsLocally s of
             None \<Rightarrow> (case getCargoLambdaVersion a of None \<Rightarrow> False | Some v \<Rightarrow> v)
           | Some b \<Rightarrow> b)"
    by (simp add: fst_Bundling_constructor runsLocally_resolve nullish_def split: option.splits)
  have n: "probes ?s1 = (if runsLocally s = None then Suc (probes s) else probes s)"
    by (simp add: fst_Bundling_constructor resolve_def split: option.splits)
  from r have c: "constructions cs ?s1 = ?s1"
    by (rule constructions_resolved)
  from r have "resolve a' ?s1 = ?s1"
    by (rule resolve_resolved)
  with c have i: "image' (snd (Bundling_constructor a' p' (constructions cs ?s1))) =
     (if forcedDockerBundling p' = Some True \<or> runsLocally ?s1 \<noteq> Some True
      then fromBuild (lib_dir a') no_build_options else fromRegistry (js ''dummy''))"
    by (simp add: image_constructor truthy_def)
  from r n c i show ?thesis by (intro conjI)
qed

theorem runsLocally_resolved_once_witness:
  "runsLocally (fst (Bundling_constructor (sample_ambient (Some True) (js ''linux'') succeeded)
       (sample_props None None) fresh)) = Some True \<and>
   probes (fst (Bundling_constructor (sample_ambient (Some True) (js ''linux'') succeeded)
       (sample_props None None) fresh)) = 1 \<and>
   constructions
       [(sample_ambient None (js ''linux'') succeeded, sample_props None None),
        (sample_ambient (Some False) (js ''linux'') succeeded, sample_props None (Some True))]
       (fst (Bundling_constructor (sample_ambient (Some True) (js ''linux'') succeeded)
          (sample_props None None) fresh)) =
     \<lparr>runsLocally = Some True, probes = 1\<rparr> \<and>
   image' (snd (Bundling_constructor (sample_ambient None (js ''linux'') failed)
       (sample_props None None)
       (constructions
          [(sample_ambient None (js ''linux'') succeeded, sample_props None None),
           (sample_ambient (Some False) (js ''linux'') succeeded, sample_props None (Some True))]
          (fst (Bundling_constructor (sample_ambient (Some True) (js ''linux'') succeeded)
             (sample_props None None) fresh))))) =
     fromRegistry (js ''dummy'')"
proof -
  let ?a = "sample_ambient (Some True) (js ''linux'') succeeded"
  let ?p = "sample_props None None"
  let ?cs = "[(sample_ambient None (js ''linux'') succeeded, sample_props None None),
              (sample_ambient (Some False) (js ''linux'') succeeded,
               sample_props None (Some True))]"
  let ?a' = "sample_ambient None (js ''linux'') failed"
  let ?s1 = "fst (Bundling_constructor ?a ?p fresh)"
  note w = runsLocally_resolved_once [of ?a ?p fresh ?cs ?a' ?p]
  from w have r: "runsLocally ?s1 = Some True"
    by (simp add: fresh_def sample_ambient_def)
  from w have n: "probes ?s1 = 1"
    by (simp add: fresh_def)
  from r n have s1: "?s1 = \<lparr>runsLocally = Some True, probes = 1\<rparr>"
    by (cases ?s1) simp
  from w have "constructions ?cs ?s1 = ?s1"
    by blast
  with s1 have c: "constructions ?cs ?s1 = \<lparr>runsLocally = Some True, probes = 1\<rparr>"
    by simp
  from w have "image' (snd (Bundling_constructor ?a' ?p (constructions ?cs ?s1))) =
      (if forcedDockerBundling ?p = Some True \<or> runsLocally ?s1 \<noteq> Some True
       then fromBuild (lib_dir ?a') no_build_options else fromRegistry (js ''dummy''))"
    by blast
  with r have i: "image' (snd (Bundling_constructor ?a' ?p (constructions ?cs ?s1))) =
      fromRegistry (js ''dummy'')"
    by (simp add: sample_props_def)
  from r n c i show ?thesis by (intro conjI)
qed

subsection \<open>Local bundling\<close>

text \<open>
  C5: when the cached availability is \<open>false\<close> at the time \<open>tryBundle\<close> is called, the
  call writes the diagnostic to standard error and returns \<open>false\<close>; this is all it does,
  and no subprocess is spawned.
\<close>

theorem tryBundle_unavailable_declines:
  assumes "runsLocally s = Some False"
  shows "tryBundle a s l outDir = ([StderrWrite cannot_run_locally], Returned False) \<and>
         spawned (fst (tryBundle a s l outDir)) = []"
  using assms by (simp add: tryBundle_declines)

theorem tryBundle_unavailable_declines_witness:
  "runsLocally \<lparr>runsLocally = Some False, probes = 1\<rparr> = Some False \<and>
   tryBundle (sample_ambient (Some True) (js ''linux'') succeeded)
       \<lparr>runsLocally = Some False, probes = 1\<rparr>
       \<lparr>captured_props = sample_props None None, captured_osPlatform = js ''linux'',
        captured_inputEnv = None\<rparr> (js ''/out'') =
     ([StderrWrite
         (js ''cargo lambda cannot run locally. Switching to Docker bundling.'' @ [0x000A])],
      Returned False) \<and>
   spawned (fst (tryBundle (sample_ambient (Some True) (js ''linux'') succeeded)
       \<lparr>runsLocally = Some False, probes = 1\<rparr>
       \<lparr>captured_props = sample_props None None, captured_osPlatform = js ''linux'',
        captured_inputEnv = None\<rparr> (js ''/out''))) = []"
proof -
  have h: "runsLocally \<lparr>runsLocally = Some False, probes = 1\<rparr> = Some False"
    by simp
  from tryBundle_unavailable_declines [OF h,
      of "sample_ambient (Some True) (js ''linux'') succeeded"
         "\<lparr>captured_props = sample_props None None, captured_osPlatform = js ''linux'',
           captured_inputEnv = None\<rparr>" "js ''/out''"]
  show ?thesis by (simp add: cannot_run_locally_def)
qed

text \<open>
  C6: when the subprocess was spawned and exited with a status other than 0,
  \<open>tryBundle\<close> does not return at all, neither \<open>true\<close> nor \<open>false\<close>. With the captured
  standard error \<open>e\<close> it logs the two progress lines, spawns, writes \<open>e\<close> with
  \<open>console.error\<close>, trimmed of the white space around it, then the line that
  \<open>cargo lambda\<close> errored, and ends the process with exit code 1.
\<close>

theorem nonzero_exit_is_fatal:
  assumes "runsLocally s \<noteq> Some False"
    and "status (cargo a l outDir) = Some n"
    and "n \<noteq> 0"
  shows "(\<forall>b. snd (tryBundle a s l outDir) \<noteq> Returned b) \<and>
         (\<forall>e. stderr (cargo a l outDir) = Some e \<longrightarrow>
            tryBundle a s l outDir =
              ([ConsoleLog [js ''BUNDLING...: '' @ outDir],
                ConsoleLog [js ''Running:'', buildCommand a l outDir],
                SpawnSync (spawn_call a l outDir),
                ConsoleError [trim e],
                ConsoleError [errored]],
               ProcessExit 1) \<and>
            (\<exists>before after. e = before @ trim e @ after \<and>
               list_all isWhiteSpace before \<and> list_all isWhiteSpace after))"
proof -
  from assms have "\<forall>b. snd (tryBundle a s l outDir) \<noteq> Returned b"
    by (simp add: tryBundle_def Let_def split: option.splits)
  moreover from assms have "\<forall>e. stderr (cargo a l outDir) = Some e \<longrightarrow>
      tryBundle a s l outDir =
        ([ConsoleLog [js ''BUNDLING...: '' @ outDir],
          ConsoleLog [js ''Running:'', buildCommand a l outDir],
          SpawnSync (spawn_call a l outDir),
          ConsoleError [trim e],
          ConsoleError [errored]],
         ProcessExit 1)"
    by (simp add: tryBundle_def Let_def)
  ultimately show ?thesis
    using trim_decomposition by blast
qed

theorem nonzero_exit_is_fatal_witness:
  "runsLocally \<lparr>runsLocally = Some True, probes = 1\<rparr> \<noteq> Some False \<and>
   status (cargo (sample_ambient (Some True) (js ''linux'') failed)
       \<lparr>captured_props = sample_props None None, captured_osPlatform = js ''linux'',
        captured_inputEnv = None\<rparr> (js ''/out'')) = Some 101 \<and>
   (101::int) \<noteq> 0 \<and>
   tryBundle (sample_ambient (Some True) (js ''linux'') failed)
       \<lparr>runsLocally = Some True, probes = 1\<rparr>
       \<lparr>captured_props = sample_props None None, captured_osPlatform = js ''linux'',
        captured_inputEnv = None\<rparr> (js ''/out'') =
     ([ConsoleLog [js ''BUNDLING...: /out''],
       ConsoleLog [js ''Running:'',
         js ''cargo lambda build --target aarch64-unknown-linux-gnu --lambda-dir /out''],
       SpawnSync (spawn_call (sample_ambient (Some True) (js ''linux'') failed)
         \<lparr>captured_props = sample_props None None, captured_osPlatform = js ''linux'',
          captured_inputEnv = None\<rparr> (js ''/out'')),
       ConsoleError [js ''error: could not compile''],
       ConsoleError [errored]],
      ProcessExit 1)"
proof -
  let ?a = "sample_ambient (Some True) (js ''linux'') failed"
  let ?s = "\<lparr>runsLocally = Some True, probes = 1\<rparr>"
  let ?l = "\<lparr>captured_props = sample_props None None, captured_osPlatform = js ''linux'',
             captured_inputEnv = None\<rparr>"
  have h1: "runsLocally ?s \<noteq> Some False" by simp
  have h2: "status (cargo ?a ?l (js ''/out'')) = Some 101"
    by (simp add: cargo_def sample_ambient_def failed_def)
  have h3: "(101::int) \<noteq> 0" by simp
  have e: "stderr (cargo ?a ?l (js ''/out'')) = Some (js ''error: could not compile'' @ [0x000A])"
    by (simp add: cargo_def sample_ambient_def failed_def)
  have t: "trim (js ''error: could not compile'' @ [0x000A]) = js ''error: could not compile''"
    by (simp add: trim_def isWhiteSpace_def js_def)
  have b: "buildCommand ?a ?l (js ''/out'') =
      js ''cargo lambda build --target aarch64-unknown-linux-gnu --lambda-dir /out''"
    by (simp add: buildCommand_def sample_ambient_def sample_createBuildCommand_def
        sample_props_def js_def)
  from nonzero_exit_is_fatal [OF h1 h2 h3] e
  have "tryBundle ?a ?s ?l (js ''/out'') =
     ([ConsoleLog [js ''BUNDLING...: '' @ js ''/out''],
       ConsoleLog [js ''Running:'', buildCommand ?a ?l (js ''/out'')],
       SpawnSync (spawn_call ?a ?l (js ''/out'')),
       ConsoleError [trim (js ''error: could not compile'' @ [0x000A])],
       ConsoleError [errored]],
      ProcessExit 1)"
    by blast
  then have "tryBundle ?a ?s ?l (js ''/out'') =
     ([ConsoleLog [js ''BUNDLING...: /out''],
       ConsoleLog [js ''Running:'',
         js ''cargo lambda build --target aarch64-unknown-linux-gnu --lambda-dir /out''],
       SpawnSync (spawn_call ?a ?l (js ''/out'')),
       ConsoleError [js ''error: could not compile''],
       ConsoleError [errored]],
      ProcessExit 1)"
    unfolding t b by (simp add: js_def)
  with h1 h2 h3 show ?thesis by (intro conjI)
qed

text \<open>
  C7: the container gets the build environment as it is. The host subprocess, when one
  is spawned, gets \<open>process.env\<close> of that moment with the build environment on top:
  every variable of the build environment with its value unchanged, every other
  variable as \<open>process.env\<close> has it.
\<close>

theorem build_environment_passed_unmodified:
  "environment (snd (Bundling_constructor a p s)) =
     or_object (buildEnvironment p) (BUILD_ENVIRONMENT a) \<and>
   (\<forall>l. local (snd (Bundling_constructor a p s)) = Some l \<and> runsLocally s' \<noteq> Some False \<longrightarrow>
      (\<exists>c. spawned (fst (tryBundle a' s' l outDir)) = [c] \<and>
           env c = process_env a' ++
                     nullish (environment (snd (Bundling_constructor a p s))) Map.empty \<and>
           (\<forall>k v. nullish (environment (snd (Bundling_constructor a p s))) Map.empty k = Some v
                    \<longrightarrow> env c k = Some v) \<and>
           (\<forall>k. nullish (environment (snd (Bundling_constructor a p s))) Map.empty k = None
                  \<longrightarrow> env c k = process_env a' k)))"
proof -
  let ?b = "snd (Bundling_constructor a p s)"
  let ?e = "nullish (environment ?b) Map.empty"
  have 1: "environment ?b = or_object (buildEnvironment p) (BUILD_ENVIRONMENT a)"
    by (rule environment_constructor)
  have 2: "\<exists>c. spawned (fst (tryBundle a' s' l outDir)) = [c] \<and>
           env c = process_env a' ++ ?e \<and>
           (\<forall>k v. ?e k = Some v \<longrightarrow> env c k = Some v) \<and>
           (\<forall>k. ?e k = None \<longrightarrow> env c k = process_env a' k)"
    if l: "local ?b = Some l" and r: "runsLocally s' \<noteq> Some False" for l
  proof -
    from l have "captured_inputEnv l = environment ?b"
      by (auto simp: local_constructor environment_constructor split: if_splits)
    then have e: "env (spawn_call a' l outDir) = process_env a' ++ ?e"
      by (simp add: spawn_call_def)
    from r have "spawned (fst (tryBundle a' s' l outDir)) = [spawn_call a' l outDir]"
      by (rule spawned_tryBundle)
    moreover from e have "\<forall>k v. ?e k = Some v \<longrightarrow> env (spawn_call a' l outDir) k = Some v"
      by (simp add: map_add_Some_iff)
    moreover from e have "\<forall>k. ?e k = None \<longrightarrow> env (spawn_call a' l outDir) k = process_env a' k"
      by (simp add: map_add_def)
    ultimately show ?thesis using e by blast
  qed
  from 1 2 show ?thesis by blast
qed

theorem build_environment_passed_unmodified_witness:
  "local (snd (Bundling_constructor (sample_ambient (Some True) (js ''linux'') succeeded)
       (sample_props (Some [js ''MODE'' \<mapsto> js ''lambda'']) None) fresh)) =
     Some \<lparr>captured_props = sample_props (Some [js ''MODE'' \<mapsto> js ''lambda'']) None,
           captured_osPlatform = js ''linux'',
           captured_inputEnv = Some [js ''MODE'' \<mapsto> js ''lambda'']\<rparr> \<and>
   runsLocally \<lparr>runsLocally = Some True, probes = 1\<rparr> \<noteq> Some False \<and>
   (\<exists>c. spawned (fst (tryBundle (sample_ambient (Some True) (js ''linux'') succeeded)
            \<lparr>runsLocally = Some True, probes = 1\<rparr>
            \<lparr>captured_props = sample_props (Some [js ''MODE'' \<mapsto> js ''lambda'']) None,
             captured_osPlatform = js ''linux'',
             captured_inputEnv = Some [js ''MODE'' \<mapsto> js ''lambda'']\<rparr>
            (js ''/out''))) = [c] \<and>
        env c (js ''MODE'') = Some (js ''lambda'') \<and>
        env c (js ''HOME'') = Some (js ''/home/dev'') \<and>
        env c (js ''RUSTFLAGS'') = None)"
proof -
  let ?a = "sample_ambient (Some True) (js ''linux'') succeeded"
  let ?p = "sample_props (Some [js ''MODE'' \<mapsto> js ''lambda'']) None"
  let ?s = "\<lparr>runsLocally = Some True, probes = 1\<rparr>"
  let ?l = "\<lparr>captured_props = ?p, captured_osPlatform = js ''linux'',
             captured_inputEnv = Some [js ''MODE'' \<mapsto> js ''lambda'']\<rparr>"
  let ?e = "nullish (environment (snd (Bundling_constructor ?a ?p fresh))) Map.empty"
  have h1: "local (snd (Bundling_constructor ?a ?p fresh)) = Some ?l"
    by (simp add: local_constructor truthy_def or_object_def sample_props_def
        sample_ambient_def)
  have h2: "runsLocally ?s \<noteq> Some False" by simp
  from build_environment_passed_unmodified [of ?a ?p fresh ?s ?a "js ''/out''"] h1 h2
  obtain c where c: "spawned (fst (tryBundle ?a ?s ?l (js ''/out''))) = [c]"
    and some: "\<And>k v. ?e k = Some v \<Longrightarrow> env c k = Some v"
    and none: "\<And>k. ?e k = None \<Longrightarrow> env c k = process_env ?a k"
    by blast
  have e: "?e = [js ''MODE'' \<mapsto> js ''lambda'']"
    by (simp add: environment_constructor or_object_def nullish_def sample_props_def)
  have "?e (js ''MODE'') = Some (js ''lambda'')"
    unfolding e by simp
  then have m: "env c (js ''MODE'') = Some (js ''lambda'')"
    by (rule some)
  have "?e (js ''HOME'') = None"
    unfolding e by (simp add: js_def)
  then have "env c (js ''HOME'') = process_env ?a (js ''HOME'')"
    by (rule none)
  then have h: "env c (js ''HOME'') = Some (js ''/home/dev'')"
    by (simp add: sample_ambient_def js_def)
  have "?e (js ''RUSTFLAGS'') = None"
    unfolding e by (simp add: js_def)
  then have "env c (js ''RUSTFLAGS'') = process_env ?a (js ''RUSTFLAGS'')"
    by (rule none)
  then have f: "env c (js ''RUSTFLAGS'') = None"
    by (simp add: sample_ambient_def js_def)
  from c m h f have "\<exists>c. spawned (fst (tryBundle ?a ?s ?l (js ''/out''))) = [c] \<and>
      env c (js ''MODE'') = Some (js ''lambda'') \<and>
      env c (js ''HOME'') = Some (js ''/home/dev'') \<and>
      env c (js ''RUSTFLAGS'') = None"
    by blast
  with h1 h2 show ?thesis by (intro conjI)
qed

subsection \<open>The commands\<close>

text \<open>
  C8: the image that is built is built with no option at all, so with no platform; and
  the command for the container is \<open>bash -c\<close> with the build command made for the
  entry \<open>/asset-input\<close>, the output directory \<open>/asset-output\<close> and the target platform
  \<open>linux\<close>, whatever \<open>os.platform()\<close> is on the host.
\<close>

theorem container_command_ignores_host:
  "command (snd (Bundling_constructor a p s)) =
     [js ''bash'', js ''-c'',
      createBuildCommand a (js ''/asset-input'') (bin p) (target p) (js ''/asset-output'')
        (js ''linux'')] \<and>
   command (snd (Bundling_constructor (a\<lparr>os_platform := os\<rparr>) p s)) =
     command (snd (Bundling_constructor a p s)) \<and>
   (forcedDockerBundling p = Some True \<or>
      runsLocally (fst (Bundling_constructor a p s)) \<noteq> Some True \<longrightarrow>
    image' (snd (Bundling_constructor a p s)) =
      fromBuild (lib_dir a)
        \<lparr>buildArgs = None, file' = None, platform = None, targetStage = None\<rparr>)"
  by (simp add: command_constructor image_constructor fst_Bundling_constructor truthy_def
      no_build_options_def BUNDLING_INPUT_DIR_def BUNDLING_OUTPUT_DIR_def)

theorem container_command_ignores_host_witness:
  "(forcedDockerBundling (sample_props None (Some True)) = Some True \<or>
    runsLocally (fst (Bundling_constructor (sample_ambient (Some True) (js ''win32'') succeeded)
        (sample_props None (Some True)) fresh)) \<noteq> Some True) \<and>
   image' (snd (Bundling_constructor (sample_ambient (Some True) (js ''win32'') succeeded)
       (sample_props None (Some True)) fresh)) =
     fromBuild (js ''/app/node_modules/rust.aws-cdk-lambda/lib'')
       \<lparr>buildArgs = None, file' = None, platform = None, targetStage = None\<rparr> \<and>
   command (snd (Bundling_constructor (sample_ambient (Some True) (js ''win32'') succeeded)
       (sample_props None (Some True)) fresh)) =
     [js ''bash'', js ''-c'',
      js ''cargo lambda build --target aarch64-unknown-linux-gnu --lambda-dir /asset-output'']"
proof -
  let ?a = "sample_ambient (Some True) (js ''win32'') succeeded"
  let ?p = "sample_props None (Some True)"
  have h: "forcedDockerBundling ?p = Some True \<or>
      runsLocally (fst (Bundling_constructor ?a ?p fresh)) \<noteq> Some True"
    by (simp add: sample_props_def)
  note w = container_command_ignores_host [of ?a ?p fresh]
  from w h have "image' (snd (Bundling_constructor ?a ?p fresh)) =
      fromBuild (lib_dir ?a)
        \<lparr>buildArgs = None, file' = None, platform = None, targetStage = None\<rparr>"
    by blast
  then have i: "image' (snd (Bundling_constructor ?a ?p fresh)) =
      fromBuild (js ''/app/node_modules/rust.aws-cdk-lambda/lib'')
        \<lparr>buildArgs = None, file' = None, platform = None, targetStage = None\<rparr>"
    by (simp add: sample_ambient_def)
  from w have "command (snd (Bundling_constructor ?a ?p fresh)) =
     [js ''bash'', js ''-c'',
      createBuildCommand ?a (js ''/asset-input'') (bin ?p) (target ?p) (js ''/asset-output'')
        (js ''linux'')]"
    by blast
  then have c: "command (snd (Bundling_constructor ?a ?p fresh)) =
     [js ''bash'', js ''-c'',
      js ''cargo lambda build --target aarch64-unknown-linux-gnu --lambda-dir /asset-output'']"
    by (simp add: sample_ambient_def sample_createBuildCommand_def sample_props_def js_def)
  from h i c show ?thesis by (intro conjI)
qed

text \<open>
  C9: the build command is one string in both commands. For the container it is the
  single argument after \<open>bash -c\<close>. On the host the only subprocess spawned has two
  arguments, the flag and the whole build command: \<open>cmd /c\<close> with
  \<open>windowsVerbatimArguments\<close> when \<open>os.platform()\<close> was \<open>win32\<close> at construction,
  \<open>bash -c\<close> without it on every other platform.
\<close>

theorem build_command_is_one_shell_string:
  "command (snd (Bundling_constructor a p s)) =
     [js ''bash'', js ''-c'',
      createBuildCommand a BUNDLING_INPUT_DIR (bin p) (target p) BUNDLING_OUTPUT_DIR
        (js ''linux'')] \<and>
   (\<forall>l. local (snd (Bundling_constructor a p s)) = Some l \<and> runsLocally s' \<noteq> Some False \<longrightarrow>
      (\<exists>c. spawned (fst (tryBundle a' s' l outDir)) = [c] \<and>
           cwd c = entry p \<and>
           (os_platform a = js ''win32'' \<longrightarrow>
              spawn_command c = js ''cmd'' \<and>
              spawn_args c =
                [js ''/c'', createBuildCommand a' (entry p) (bin p) (target p) outDir (js ''win32'')] \<and>
              windowsVerbatimArguments c) \<and>
           (os_platform a \<noteq> js ''win32'' \<longrightarrow>
              spawn_command c = js ''bash'' \<and>
              spawn_args c =
                [js ''-c'',
                 createBuildCommand a' (entry p) (bin p) (target p) outDir (os_platform a)] \<and>
              \<not> windowsVerbatimArguments c)))"
proof -
  let ?b = "snd (Bundling_constructor a p s)"
  have 1: "command ?b =
     [js ''bash'', js ''-c'',
      createBuildCommand a BUNDLING_INPUT_DIR (bin p) (target p) BUNDLING_OUTPUT_DIR
        (js ''linux'')]"
    by (rule command_constructor)
  have 2: "\<exists>c. spawned (fst (tryBundle a' s' l outDir)) = [c] \<and>
           cwd c = entry p \<and>
           (os_platform a = js ''win32'' \<longrightarrow>
              spawn_command c = js ''cmd'' \<and>
              spawn_args c =
                [js ''/c'', createBuildCommand a' (entry p) (bin p) (target p) outDir (js ''win32'')] \<and>
              windowsVerbatimArguments c) \<and>
           (os_platform a \<noteq> js ''win32'' \<longrightarrow>
              spawn_command c = js ''bash'' \<and>
              spawn_args c =
                [js ''-c'',
                 createBuildCommand a' (entry p) (bin p) (target p) outDir (os_platform a)] \<and>
              \<not> windowsVerbatimArguments c)"
    if l: "local ?b = Some l" and r: "runsLocally s' \<noteq> Some False" for l
  proof -
    from l have p: "captured_props l = p" and os: "captured_osPlatform l = os_platform a"
      by (auto simp: local_constructor split: if_splits)
    from r have "spawned (fst (tryBundle a' s' l outDir)) = [spawn_call a' l outDir]"
      by (rule spawned_tryBundle)
    then show ?thesis
      by (simp add: spawn_call_def buildCommand_def p os)
  qed
  from 1 2 show ?thesis by blast
qed

theorem build_command_is_one_shell_string_witness:
  "local (snd (Bundling_constructor (sample_ambient (Some True) (js ''win32'') succeeded)
       (sample_props None None) fresh)) =
     Some \<lparr>captured_props = sample_props None None,
           captured_osPlatform = js ''win32'',
           captured_inputEnv = Some [js ''RUSTFLAGS'' \<mapsto> js ''-C opt-level=3'']\<rparr> \<and>
   runsLocally \<lparr>runsLocally = Some True, probes = 1\<rparr> \<noteq> Some False \<and>
   os_platform (sample_ambient (Some True) (js ''win32'') succeeded) = js ''win32'' \<and>
   (\<exists>c. spawned (fst (tryBundle (sample_ambient (Some True) (js ''win32'') succeeded)
            \<lparr>runsLocally = Some True, probes = 1\<rparr>
            \<lparr>captured_props = sample_props None None,
             captured_osPlatform = js ''win32'',
             captured_inputEnv = Some [js ''RUSTFLAGS'' \<mapsto> js ''-C opt-level=3'']\<rparr>
            (js ''C:/out''))) = [c] \<and>
        spawn_command c = js ''cmd'' \<and>
        spawn_args c =
          [js ''/c'',
           js ''cargo lambda build --target aarch64-unknown-linux-gnu --lambda-dir C:/out''] \<and>
        windowsVerbatimArguments c)"
proof -
  let ?a = "sample_ambient (Some True) (js ''win32'') succeeded"
  let ?p = "sample_props None None"
  let ?s = "\<lparr>runsLocally = Some True, probes = 1\<rparr>"
  let ?l = "\<lparr>captured_props = ?p, captured_osPlatform = js ''win32'',
             captured_inputEnv = Some [js ''RUSTFLAGS'' \<mapsto> js ''-C opt-level=3'']\<rparr>"
  have h1: "local (snd (Bundling_constructor ?a ?p fresh)) = Some ?l"
    by (simp add: local_constructor truthy_def or_object_def sample_props_def
        sample_ambient_def)
  have h2: "runsLocally ?s \<noteq> Some False" by simp
  have h3: "os_platform ?a = js ''win32''"
    by (simp add: sample_ambient_def)
  have b: "createBuildCommand ?a (entry ?p) (bin ?p) (target ?p) (js ''C:/out'') (js ''win32'') =
      js ''cargo lambda build --target aarch64-unknown-linux-gnu --lambda-dir C:/out''"
    by (simp add: sample_ambient_def sample_createBuildCommand_def sample_props_def js_def)
  from build_command_is_one_shell_string [of ?a ?p fresh ?s ?a "js ''C:/out''"] h1 h2 h3
  obtain c where "spawned (fst (tryBundle ?a ?s ?l (js ''C:/out''))) = [c]"
    and "spawn_command c = js ''cmd''"
    and "spawn_args c =
          [js ''/c'', createBuildCommand ?a (entry ?p) (bin ?p) (target ?p) (js ''C:/out'') (js ''win32'')]"
    and "windowsVerbatimArguments c"
    by blast
  then have "\<exists>c. spawned (fst (tryBundle ?a ?s ?l (js ''C:/out''))) = [c] \<and>
        spawn_command c = js ''cmd'' \<and>
        spawn_args c =
          [js ''/c'',
           js ''cargo lambda build --target aarch64-unknown-linux-gnu --lambda-dir C:/out''] \<and>
        windowsVerbatimArguments c"
    unfolding b by blast
  with h1 h2 h3 show ?thesis by (intro conjI)
qed

subsection \<open>The placeholder image\<close>

text \<open>
  C10: with \<open>forcedDockerBundling\<close> false or absent and the availability resolved to
  \<open>true\<close>, no image is built: the image is the registry reference \<open>dummy\<close>. Local bundling
  is offered and, at any later moment of the process, never declines: it spawns the
  build and does not return \<open>false\<close>, so nothing falls back to the placeholder.
\<close>

theorem available_uses_placeholder_image:
  assumes "forcedDockerBundling p \<noteq> Some True"
    and "runsLocally (fst (Bundling_constructor a p s)) = Some True"
  shows "image' (snd (Bundling_constructor a p s)) = fromRegistry (js ''dummy'') \<and>
         (\<exists>l. local (snd (Bundling_constructor a p s)) = Some l \<and>
              snd (tryBundle a' (constructions cs (fst (Bundling_constructor a p s))) l outDir)
                \<noteq> Returned False \<and>
              spawned (fst (tryBundle a' (constructions cs (fst (Bundling_constructor a p s)))
                 l outDir)) = [spawn_call a' l outDir])"
proof -
  let ?s1 = "fst (Bundling_constructor a p s)"
  from assms(2) have "runsLocally (resolve a s) = Some True"
    by (simp add: fst_Bundling_constructor)
  with assms(1) have i: "image' (snd (Bundling_constructor a p s)) = fromRegistry (js ''dummy'')"
    by (simp add: image_constructor truthy_def)
  from assms(1) obtain l where l: "local (snd (Bundling_constructor a p s)) = Some l"
    by (simp add: local_constructor truthy_def)
  from assms(2) have "constructions cs ?s1 = ?s1"
    by (rule constructions_resolved)
  with assms(2) have r: "runsLocally (constructions cs ?s1) \<noteq> Some False"
    by simp
  then have "snd (tryBundle a' (constructions cs ?s1) l outDir) \<noteq> Returned False"
    by (rule tryBundle_not_declined)
  moreover from r
  have "spawned (fst (tryBundle a' (constructions cs ?s1) l outDir)) = [spawn_call a' l outDir]"
    by (rule spawned_tryBundle)
  ultimately show ?thesis using i l by blast
qed

theorem available_uses_placeholder_image_witness:
  "forcedDockerBundling (sample_props None (Some False)) \<noteq> Some True \<and>
   runsLocally (fst (Bundling_constructor (sample_ambient (Some True) (js ''linux'') succeeded)
       (sample_props None (Some False)) fresh)) = Some True \<and>
   image' (snd (Bundling_constructor (sample_ambient (Some True) (js ''linux'') succeeded)
       (sample_props None (Some False)) fresh)) = fromRegistry (js ''dummy'') \<and>
   (\<exists>l. local (snd (Bundling_constructor (sample_ambient (Some True) (js ''linux'') succeeded)
            (sample_props None (Some False)) fresh)) = Some l \<and>
        snd (tryBundle (sample_ambient None (js ''linux'') failed)
            (constructions [(sample_ambient None (js ''linux'') succeeded, sample_props None None)]
               (fst (Bundling_constructor (sample_ambient (Some True) (js ''linux'') succeeded)
                  (sample_props None (Some False)) fresh)))
            l (js ''/out'')) \<noteq> Returned False)"
proof -
  let ?a = "sample_ambient (Some True) (js ''linux'') succeeded"
  let ?p = "sample_props None (Some False)"
  have h1: "forcedDockerBundling ?p \<noteq> Some True"
    by (simp add: sample_props_def)
  have h2: "runsLocally (fst (Bundling_constructor ?a ?p fresh)) = Some True"
    by (simp add: fst_Bundling_constructor runsLocally_resolve fresh_def nullish_def
        sample_ambient_def)
  from available_uses_placeholder_image [OF h1 h2,
      of "sample_ambient None (js ''linux'') failed"
         "[(sample_ambient None (js ''linux'') succeeded, sample_props None None)]"
         "js ''/out''"] h1 h2
  show ?thesis by blast
qed

end
